theory Spec2Isabelle
  imports Main "HOL-Library.Stream" "HOL-Library.Multiset" "HOL-Library.Signed_Division"
    "HOL-Library.Monad_Syntax"
begin

section \<open>Console, value source and handlers\<close>

text \<open>
  The program of \<^verbatim>\<open>src/main.cpp\<close> talks to the outside through \<^verbatim>\<open>std::cout\<close> and
  \<^verbatim>\<open>std::cin\<close> only.

  \<^item> What has been written to \<^verbatim>\<open>std::cout\<close> is a list of items, one per \<^verbatim>\<open><<\<close>: a string
    literal, an \<^verbatim>\<open>int\<close>, or \<^verbatim>\<open>std::endl\<close>. The record is extensible, so that a handler may
    keep whatever further state it likes next to the output.
  \<^item> The value source is the sequence of values that the successive extractions
    \<^verbatim>\<open>std::cin >> n\<close> of \<^verbatim>\<open>FetchValue\<close> store into \<^verbatim>\<open>n\<close>: an infinite stream of integers,
    of which a run reads a prefix. (An extraction that finds no input left stores nothing,
    and \<^verbatim>\<open>FetchValue\<close> returns the 0 it initialised \<^verbatim>\<open>n\<close> with: in this sequence the end of
    the input is a 0.) A source that never yields 0 keeps the loops running for ever,
    which is why the loops below are partial functions.
  \<^item> The values are C++ \<^verbatim>\<open>int\<close>s. The program only compares, prints and sorts them and
    never computes with them, so they are modelled by \<^typ>\<open>int\<close>.
\<close>

datatype tok = Str string | Num int | Endl

record console =
  cout :: "tok list"

definition put :: "tok list \<Rightarrow> 'a console_scheme \<Rightarrow> 'a console_scheme" where
  "put ts w = w\<lparr>cout := cout w @ ts\<rparr>"

text \<open>\<^verbatim>\<open>typedef void(*NewValueHandlerFnPtr)(int)\<close>: a handler receives the value and acts
  on the console (and on the state it keeps there); the value source belongs to the loop
  that calls it.\<close>

type_synonym 'a NewValueHandlerFnPtr = "int \<Rightarrow> 'a console_scheme \<Rightarrow> 'a console_scheme"

definition IntHandler1 :: "'a NewValueHandlerFnPtr" where
  "IntHandler1 n w =
     (let Threshold = 50 in
      if n > Threshold then put [Str ''Alert!'', Endl] w else w)"

definition IntHandler2 :: "'a NewValueHandlerFnPtr" where
  "IntHandler2 n w = put [Str ''New value: '', Num n, Endl] w"

text \<open>\<^verbatim>\<open>FetchValue\<close> prints the prompt, extracts the next value and returns it, together
  with the rest of the source and the console.\<close>

definition FetchValue ::
  "int stream \<Rightarrow> 'a console_scheme \<Rightarrow> int \<times> int stream \<times> 'a console_scheme" where
  "FetchValue cin w =
     (let w' = put [Str ''Enter the next integer (0 for exit): ''] w;
          n = shd cin
      in (n, stl cin, w'))"

text \<open>\<^verbatim>\<open>GenerateRandomNumber\<close> seeds the generator with the current time and returns the
  first value drawn. The C library is not part of the repository: the result of \<^verbatim>\<open>std::rand\<close>
  right after \<^verbatim>\<open>std::srand(seed)\<close> is the parameter \<open>rand_after\<close>, and the time read by
  \<^verbatim>\<open>std::time(0)\<close> is the parameter \<open>now\<close>.\<close>

definition GenerateRandomNumber :: "(nat \<Rightarrow> int) \<Rightarrow> nat \<Rightarrow> int" where
  "GenerateRandomNumber rand_after now = rand_after now"

section \<open>The event loops\<close>

text \<open>Each \<^verbatim>\<open>do { ... } while (n != 0)\<close> is a recursive function that returns the rest of
  the source and the console when the loop ends, and \<open>None\<close> when it never does.\<close>

partial_function (option) HardcodedHandlerDemo ::
  "int stream \<Rightarrow> 'a console_scheme \<Rightarrow> (int stream \<times> 'a console_scheme) option" where
  "HardcodedHandlerDemo cin w =
     (case FetchValue cin w of (n, cin', w') \<Rightarrow>
        let w'' = (if n > 50 then put [Str ''Alert!'', Endl] w' else w') in
        if n \<noteq> 0 then HardcodedHandlerDemo cin' w'' else Some (cin', w''))"

partial_function (option) RunEventLoop ::
  "'a NewValueHandlerFnPtr \<Rightarrow> int stream \<Rightarrow> 'a console_scheme \<Rightarrow>
     (int stream \<times> 'a console_scheme) option" where
  "RunEventLoop handler cin w =
     (case FetchValue cin w of (n, cin', w') \<Rightarrow>
        let w'' = handler n w' in
        if n \<noteq> 0 then RunEventLoop handler cin' w'' else Some (cin', w''))"

text \<open>\<^verbatim>\<open>HandlerSetInRuntimeDemo\<close>: the handler is chosen by the parity of a random number.
  \<open>smod\<close> is the remainder of C++ (the quotient is truncated towards zero).\<close>

partial_function (option) HandlerSetInRuntimeDemo_loop ::
  "'a NewValueHandlerFnPtr \<Rightarrow> int stream \<Rightarrow> 'a console_scheme \<Rightarrow>
     (int stream \<times> 'a console_scheme) option" where
  "HandlerSetInRuntimeDemo_loop handler cin w =
     (case FetchValue cin w of (n, cin', w') \<Rightarrow>
        let w'' = handler n w' in
        if n \<noteq> 0 then HandlerSetInRuntimeDemo_loop handler cin' w'' else Some (cin', w''))"

definition HandlerSetInRuntimeDemo ::
  "(nat \<Rightarrow> int) \<Rightarrow> nat \<Rightarrow> int stream \<Rightarrow> 'a console_scheme \<Rightarrow>
     (int stream \<times> 'a console_scheme) option" where
  "HandlerSetInRuntimeDemo rand_after now cin w =
     (let handler = (if GenerateRandomNumber rand_after now smod 2 \<noteq> 0
                     then IntHandler1 else IntHandler2)
      in HandlerSetInRuntimeDemo_loop handler cin w)"

text \<open>The function object: \<^verbatim>\<open>class NewValueHandler\<close> has the one data member
  \<^verbatim>\<open>alert_threshold_\<close>. Its constructor stores the argument; its call operator is a method
  of the object, so the model passes the object in and hands it back next to the console.
  Constructor and destructor acquire and free nothing.\<close>

record NewValueHandler =
  alert_threshold :: int

definition NewValueHandler_ctor :: "int \<Rightarrow> NewValueHandler" where
  "NewValueHandler_ctor a = \<lparr>alert_threshold = a\<rparr>"

definition NewValueHandler_call ::
  "NewValueHandler \<Rightarrow> int \<Rightarrow> 'a console_scheme \<Rightarrow> NewValueHandler \<times> 'a console_scheme" where
  "NewValueHandler_call this v w =
     (if v > alert_threshold this then (this, put [Str ''Alert!'', Endl] w) else (this, w))"

partial_function (option) FunctorDemo_loop ::
  "NewValueHandler \<Rightarrow> int stream \<Rightarrow> 'a console_scheme \<Rightarrow>
     (NewValueHandler \<times> int stream \<times> 'a console_scheme) option" where
  "FunctorDemo_loop handler cin w =
     (case FetchValue cin w of (n, cin', w') \<Rightarrow>
        case NewValueHandler_call handler n w' of (handler', w'') \<Rightarrow>
        if n \<noteq> 0 then FunctorDemo_loop handler' cin' w'' else Some (handler', cin', w''))"

definition FunctorDemo ::
  "int stream \<Rightarrow> 'a console_scheme \<Rightarrow> (int stream \<times> 'a console_scheme) option" where
  "FunctorDemo cin w =
     (let handler = NewValueHandler_ctor 50
      in map_option snd (FunctorDemo_loop handler cin w))"

declare HardcodedHandlerDemo.simps [code] RunEventLoop.simps [code]
  HandlerSetInRuntimeDemo_loop.simps [code] FunctorDemo_loop.simps [code]

definition EventHandlerPassedAsAnArgumentDemo ::
  "(nat \<Rightarrow> int) \<Rightarrow> nat \<Rightarrow> int stream \<Rightarrow> 'a console_scheme \<Rightarrow>
     (int stream \<times> 'a console_scheme) option" where
  "EventHandlerPassedAsAnArgumentDemo rand_after now cin w =
     (let handler = (if GenerateRandomNumber rand_after now smod 2 \<noteq> 0
                     then IntHandler1 else IntHandler2)
      in RunEventLoop handler cin w)"

definition EventHandlerIsLambdaDemo ::
  "int stream \<Rightarrow> 'a console_scheme \<Rightarrow> (int stream \<times> 'a console_scheme) option" where
  "EventHandlerIsLambdaDemo cin w =
     RunEventLoop (\<lambda>n. put [Str ''New value: '', Num n, Endl]) cin w"

section \<open>Lambda expressions and their captures\<close>

text \<open>The lambdas of \<^verbatim>\<open>LambdaDemo\<close> that capture nothing are functions of their arguments and
  the console.\<close>

definition lambda_new_value :: "'a NewValueHandlerFnPtr" where
  "lambda_new_value n w = put [Str ''New value: '', Num n, Endl] w"

definition lambda_hello :: "'a console_scheme \<Rightarrow> 'a console_scheme" where
  "lambda_hello w = put [Str ''Hello from lambda!'', Endl] w"

definition lambda_empty :: "'a console_scheme \<Rightarrow> 'a console_scheme" where
  "lambda_empty w = w"

definition lambda_string :: "string" where
  "lambda_string = ''Hello from lambda!''"

text \<open>The local variables of \<^verbatim>\<open>LambdaDemo\<close> live in a store, addressed by their names; a
  variable is in the store from its declaration on.

  \<^item> A capture by value copies the variable when the lambda expression is evaluated: the
    closure holds the copy, and its body is a function of that copy.
  \<^item> A capture by reference holds the address: the body writes to the store of the
    enclosing function.\<close>

record frame = console +
  ints :: "string \<rightharpoonup> int"
  strs :: "string \<rightharpoonup> string"

definition enter :: "console \<Rightarrow> frame" where
  "enter w = \<lparr>cout = cout w, ints = Map.empty, strs = Map.empty\<rparr>"

definition leave :: "frame \<Rightarrow> console" where
  "leave st = \<lparr>cout = cout st\<rparr>"

definition declare_int :: "string \<Rightarrow> int \<Rightarrow> frame \<Rightarrow> frame" where
  "declare_int x v st = st\<lparr>ints := (ints st)(x \<mapsto> v)\<rparr>"

definition declare_string :: "string \<Rightarrow> string \<Rightarrow> frame \<Rightarrow> frame" where
  "declare_string x v st = st\<lparr>strs := (strs st)(x \<mapsto> v)\<rparr>"

text \<open>\<open>by_value x body\<close> evaluates and calls a lambda that captures \<open>x\<close> by value. (The
  variable is in scope where the source does so; the other branch is never taken.)\<close>

definition by_value :: "string \<Rightarrow> (int \<Rightarrow> frame \<Rightarrow> frame) \<Rightarrow> frame \<Rightarrow> frame" where
  "by_value x body st = (case ints st x of Some copy \<Rightarrow> body copy st | None \<Rightarrow> st)"

definition lambda_threshold :: "int \<Rightarrow> 'a console_scheme \<Rightarrow> 'a console_scheme" where
  "lambda_threshold threshold w = put [Num threshold, Endl] w"

definition lambda_all_by_value :: "int \<Rightarrow> int \<Rightarrow> 'a console_scheme \<Rightarrow> 'a console_scheme" where
  "lambda_all_by_value threshold i w = put [Num threshold, Str '', '', Num i, Endl] w"

definition lambda_ref_i :: "string \<Rightarrow> frame \<Rightarrow> frame" where
  "lambda_ref_i i st = st\<lparr>ints := (ints st)(i \<mapsto> 1)\<rparr>"

definition lambda_ref_all :: "string \<Rightarrow> string \<Rightarrow> frame \<Rightarrow> frame" where
  "lambda_ref_all i j st =
     (let st1 = st\<lparr>ints := (ints st)(i \<mapsto> 11)\<rparr>
      in st1\<lparr>ints := (ints st1)(j \<mapsto> 22)\<rparr>)"

text \<open>The statements of \<^verbatim>\<open>LambdaDemo\<close>, in the order of the source. \<open>LambdaDemo_upto k\<close> is
  the frame after the first \<open>k\<close> of them; the locals end with the function.\<close>

definition LambdaDemo_body :: "(frame \<Rightarrow> frame) list" where
  "LambdaDemo_body =
     [lambda_new_value 123,
      lambda_hello,
      lambda_empty,
      declare_string ''str'' lambda_string,
      declare_string ''str2'' lambda_string,
      declare_int ''threshold'' 50,
      by_value ''threshold'' lambda_threshold,
      declare_int ''i'' 1,
      by_value ''threshold'' (\<lambda>threshold. by_value ''i'' (lambda_all_by_value threshold)),
      lambda_ref_i ''i'',
      declare_int ''j'' 2,
      lambda_ref_all ''i'' ''j'',
      (\<lambda>st. st),
      lambda_hello]"

definition LambdaDemo_upto :: "nat \<Rightarrow> console \<Rightarrow> frame" where
  "LambdaDemo_upto k w = fold (\<lambda>stmt st. stmt st) (take k LambdaDemo_body) (enter w)"

definition LambdaDemo :: "console \<Rightarrow> console" where
  "LambdaDemo w = leave (LambdaDemo_upto (length LambdaDemo_body) w)"

section \<open>Predicates in sorting\<close>

text \<open>Modelled from the spec: \<^verbatim>\<open>std::sort\<close> belongs to the C++ standard library, not to the
  repository. It sorts a range into the order of the comparison it is given (\<^verbatim>\<open>operator<\<close>
  by default). The model sorts by insertion; on \<^verbatim>\<open>int\<close>s, where equivalent elements are equal,
  every sorting algorithm returns the same vector (\<open>std_sort_unique\<close> below).\<close>

fun insert_by :: "('a \<Rightarrow> 'a \<Rightarrow> bool) \<Rightarrow> 'a \<Rightarrow> 'a list \<Rightarrow> 'a list" where
  "insert_by cmp x [] = [x]"
| "insert_by cmp x (y # ys) = (if cmp x y then x # y # ys else y # insert_by cmp x ys)"

definition std_sort :: "('a \<Rightarrow> 'a \<Rightarrow> bool) \<Rightarrow> 'a list \<Rightarrow> 'a list" where
  "std_sort cmp v = foldr (insert_by cmp) v []"

definition Comparer :: "int \<Rightarrow> int \<Rightarrow> bool" where
  "Comparer a b = (a > b)"

text \<open>A failed \<^verbatim>\<open>assert\<close> aborts the program.\<close>

datatype error = AssertionFailed

definition PredicateDemo :: "error + unit" where
  "PredicateDemo =
     (let v = [3, 2, 6, 9, 1, 5 :: int];
          v_sorted_increasing = [1, 2, 3, 5, 6, 9];
          v_sorted_decreasing = [9, 6, 5, 3, 2, 1];
          v = std_sort (<) v
      in if v \<noteq> v_sorted_increasing then Inl AssertionFailed
         else let v = std_sort Comparer v
              in if v \<noteq> v_sorted_decreasing then Inl AssertionFailed else Inr ())"

definition LambdaAsPredicateDemo :: "error + unit" where
  "LambdaAsPredicateDemo =
     (let v = [3, 2, 6, 9, 1, 5 :: int];
          v_sorted_increasing = [1, 2, 3, 5, 6, 9];
          v_sorted_decreasing = [9, 6, 5, 3, 2, 1];
          v = std_sort (<) v
      in if v \<noteq> v_sorted_increasing then Inl AssertionFailed
         else let v = std_sort (\<lambda>a b. a > b) v
              in if v \<noteq> v_sorted_decreasing then Inl AssertionFailed else Inr ())"

section \<open>The entry point\<close>

text \<open>\<^verbatim>\<open>main\<close> has no parameters. It returns \<open>None\<close> when one of the event loops never ends,
  the assertion failure when an \<^verbatim>\<open>assert\<close> aborts, and otherwise its exit code with what is
  left of the value source and the console. \<open>now1\<close> and \<open>now2\<close> are the times at the two
  calls of \<^verbatim>\<open>GenerateRandomNumber\<close>.\<close>

definition main ::
  "(nat \<Rightarrow> int) \<Rightarrow> nat \<Rightarrow> nat \<Rightarrow> int stream \<Rightarrow> console \<Rightarrow>
     (error + int \<times> int stream \<times> console) option" where
  "main rand_after now1 now2 cin w =
     do {
       (cin1, w1) \<leftarrow> HardcodedHandlerDemo cin w;
       (cin2, w2) \<leftarrow> HandlerSetInRuntimeDemo rand_after now1 cin1 w1;
       (cin3, w3) \<leftarrow> FunctorDemo cin2 w2;
       (cin4, w4) \<leftarrow> EventHandlerPassedAsAnArgumentDemo rand_after now2 cin3 w3;
       (cin5, w5) \<leftarrow> EventHandlerIsLambdaDemo cin4 w4;
       let w6 = LambdaDemo w5;
       Some (case PredicateDemo of
               Inl e \<Rightarrow> Inl e
             | Inr _ \<Rightarrow>
                 (case LambdaAsPredicateDemo of
                    Inl e \<Rightarrow> Inl e
                  | Inr _ \<Rightarrow> Inr (0, cin5, w6)))
     }"

section \<open>Notions used to state the properties\<close>

text \<open>One turn of an event loop on the value \<open>v\<close>: \<^verbatim>\<open>FetchValue\<close> prints its prompt, then the
  handler is called on \<open>v\<close>.\<close>

definition dispatch ::
  "'a NewValueHandlerFnPtr \<Rightarrow> 'a console_scheme \<Rightarrow> int \<Rightarrow> 'a console_scheme" where
  "dispatch H w v = H v (put [Str ''Enter the next integer (0 for exit): ''] w)"

text \<open>A probe for the calls a loop makes: \<open>logging H\<close> does what \<open>H\<close> does and appends the
  argument of the call to a log that \<open>H\<close> cannot change.\<close>

record logged = console +
  calls :: "int list"

definition logging ::
  "(int \<Rightarrow> 'a logged_scheme \<Rightarrow> 'a logged_scheme) \<Rightarrow>
     int \<Rightarrow> 'a logged_scheme \<Rightarrow> 'a logged_scheme" where
  "logging H n st = (H n st)\<lparr>calls := calls st @ [n]\<rparr>"

text \<open>A sequence of calls of one \<^verbatim>\<open>NewValueHandler\<close> object.\<close>

fun NewValueHandler_calls ::
  "NewValueHandler \<Rightarrow> int list \<Rightarrow> 'a console_scheme \<Rightarrow> NewValueHandler \<times> 'a console_scheme" where
  "NewValueHandler_calls this [] w = (this, w)"
| "NewValueHandler_calls this (v # vs) w =
     (case NewValueHandler_call this v w of (this', w') \<Rightarrow> NewValueHandler_calls this' vs w')"

section \<open>The value source up to its first 0\<close>

lemma split_first_zero:
  assumes "(0::int) \<in> sset s"
  shows "\<exists>pre rest. s = pre @- 0 ## rest \<and> 0 \<notin> set pre"
  using assms
proof (induction rule: sset_induct)
  case (shd s)
  have "s = [] @- shd s ## stl s" by simp
  then show ?case by (metis empty_iff list.set(1))
next
  case (stl s z)
  then obtain pre rest where s: "stl s = pre @- z ## rest" and z: "z \<notin> set pre" by blast
  show ?case
  proof (cases "shd s = z")
    case True
    then have "s = [] @- z ## stl s" by (metis shift.simps(1) stream.collapse)
    then show ?thesis by (metis empty_iff list.set(1))
  next
    case False
    have "s = (shd s # pre) @- z ## rest" using s by (metis shift.simps(2) stream.collapse)
    moreover have "z \<notin> set (shd s # pre)" using False z by auto
    ultimately show ?thesis by blast
  qed
qed

lemma shd_zero_sset: "shd s = (0::int) \<Longrightarrow> 0 \<in> sset s"
  by (metis shd_sset)

lemma zero_in_shift: "(0::int) \<in> sset (pre @- 0 ## rest)"
  by (induction pre) simp_all

lemma RunEventLoop_step:
  "RunEventLoop H (v ## s) w =
     (if v \<noteq> 0 then RunEventLoop H s (dispatch H w v) else Some (s, dispatch H w v))"
  by (subst RunEventLoop.simps) (simp add: FetchValue_def dispatch_def)

lemma RunEventLoop_prefix:
  "0 \<notin> set pre \<Longrightarrow>
   RunEventLoop H (pre @- 0 ## rest) w = Some (rest, foldl (dispatch H) w (pre @ [0]))"
  by (induction pre arbitrary: w) (simp_all add: RunEventLoop_step)

lemma RunEventLoop_Some_zero:
  assumes "RunEventLoop H cin w = Some r"
  shows "0 \<in> sset cin"
proof (rule RunEventLoop.raw_induct[where P = "\<lambda>H cin w r. 0 \<in> sset cin", OF _ assms])
  fix loop :: "'a NewValueHandlerFnPtr \<Rightarrow> int stream \<Rightarrow> 'a console_scheme \<Rightarrow>
    (int stream \<times> 'a console_scheme) option"
  fix H cin w r
  assume IH: "\<And>H cin w r. loop H cin w = Some r \<Longrightarrow> 0 \<in> sset cin"
  assume body: "(case FetchValue cin w of (n, cin', w') \<Rightarrow>
        let w'' = H n w' in
        if n \<noteq> 0 then loop H cin' w'' else Some (cin', w'')) = Some r"
  show "0 \<in> sset cin"
  proof (cases "shd cin = 0")
    case True
    then show ?thesis by (metis shd_sset)
  next
    case False
    with body have "loop H (stl cin) (dispatch H w (shd cin)) = Some r"
      by (simp add: FetchValue_def dispatch_def)
    then have "0 \<in> sset (stl cin)" by (rule IH)
    then show ?thesis by (rule stl_sset)
  qed
qed

lemma RunEventLoop_None_iff: "(RunEventLoop H cin w = None) = (0 \<notin> sset cin)"
proof
  assume n: "RunEventLoop H cin w = None"
  show "0 \<notin> sset cin"
  proof
    assume "0 \<in> sset cin"
    then obtain pre rest where "cin = pre @- 0 ## rest" "0 \<notin> set pre"
      using split_first_zero by blast
    then show False using n by (simp add: RunEventLoop_prefix)
  qed
next
  assume "0 \<notin> sset cin"
  then show "RunEventLoop H cin w = None"
    by (cases "RunEventLoop H cin w") (auto dest: RunEventLoop_Some_zero)
qed

lemma calls_foldl_logging:
  "calls (foldl (dispatch (logging H)) st vs) = calls st @ vs"
  by (induction vs arbitrary: st) (simp_all add: dispatch_def logging_def put_def)


lemma HardcodedHandlerDemo_step:
  "HardcodedHandlerDemo (v ## s) w =
     (if v \<noteq> 0 then HardcodedHandlerDemo s (dispatch IntHandler1 w v)
      else Some (s, dispatch IntHandler1 w v))"
  by (subst HardcodedHandlerDemo.simps) (simp add: FetchValue_def dispatch_def IntHandler1_def)

lemma HardcodedHandlerDemo_Some_zero:
  assumes "HardcodedHandlerDemo cin w = Some r"
  shows "0 \<in> sset cin"
  by (rule HardcodedHandlerDemo.raw_induct[where P = "\<lambda>cin w r. 0 \<in> sset cin", OF _ assms])
    (auto simp: FetchValue_def Let_def split: if_splits intro: stl_sset shd_zero_sset)

lemma FunctorDemo_loop_step:
  "FunctorDemo_loop h (v ## s) w =
     (if v \<noteq> 0 then FunctorDemo_loop h s (dispatch (\<lambda>v w. snd (NewValueHandler_call h v w)) w v)
      else Some (h, s, dispatch (\<lambda>v w. snd (NewValueHandler_call h v w)) w v))"
  by (subst FunctorDemo_loop.simps) (simp add: FetchValue_def dispatch_def NewValueHandler_call_def)

lemma FunctorDemo_loop_Some_zero:
  assumes "FunctorDemo_loop h cin w = Some r"
  shows "0 \<in> sset cin"
  by (rule FunctorDemo_loop.raw_induct[where P = "\<lambda>h cin w r. 0 \<in> sset cin", OF _ assms])
    (auto simp: FetchValue_def Let_def split: if_splits prod.splits intro: stl_sset shd_zero_sset)

lemma HardcodedHandlerDemo_prefix:
  "0 \<notin> set pre \<Longrightarrow>
   HardcodedHandlerDemo (pre @- 0 ## rest) w = Some (rest, foldl (dispatch IntHandler1) w (pre @ [0]))"
  by (induction pre arbitrary: w) (simp_all add: HardcodedHandlerDemo_step)

lemma FunctorDemo_loop_prefix:
  "0 \<notin> set pre \<Longrightarrow>
   FunctorDemo_loop h (pre @- 0 ## rest) w =
     Some (h, rest, foldl (dispatch (\<lambda>v w. snd (NewValueHandler_call h v w))) w (pre @ [0]))"
  by (induction pre arbitrary: w) (simp_all add: FunctorDemo_loop_step)

lemma call_ctor_50: "snd (NewValueHandler_call (NewValueHandler_ctor 50) v w) = IntHandler1 v w"
  by (simp add: NewValueHandler_call_def NewValueHandler_ctor_def IntHandler1_def)

lemma HardcodedHandlerDemo_eq: "HardcodedHandlerDemo cin w = RunEventLoop IntHandler1 cin w"
proof (cases "0 \<in> sset cin")
  case True
  then obtain pre rest where "cin = pre @- 0 ## rest" "0 \<notin> set pre"
    using split_first_zero by blast
  then show ?thesis by (simp add: HardcodedHandlerDemo_prefix RunEventLoop_prefix)
next
  case False
  then have "HardcodedHandlerDemo cin w = None"
    by (cases "HardcodedHandlerDemo cin w") (auto dest: HardcodedHandlerDemo_Some_zero)
  moreover have "RunEventLoop IntHandler1 cin w = None"
    using False by (simp add: RunEventLoop_None_iff)
  ultimately show ?thesis by simp
qed

lemma FunctorDemo_eq: "FunctorDemo cin w = RunEventLoop IntHandler1 cin w"
proof (cases "0 \<in> sset cin")
  case True
  then obtain pre rest where "cin = pre @- 0 ## rest" "0 \<notin> set pre"
    using split_first_zero by blast
  then show ?thesis
    by (simp add: FunctorDemo_def FunctorDemo_loop_prefix RunEventLoop_prefix call_ctor_50)
next
  case False
  then have "FunctorDemo_loop (NewValueHandler_ctor 50) cin w = None"
    by (cases "FunctorDemo_loop (NewValueHandler_ctor 50) cin w") (auto dest: FunctorDemo_loop_Some_zero)
  moreover have "RunEventLoop IntHandler1 cin w = None"
    using False by (simp add: RunEventLoop_None_iff)
  ultimately show ?thesis by (simp add: FunctorDemo_def)
qed

lemma put_neq: "ts \<noteq> [] \<Longrightarrow> put ts w \<noteq> w"
proof
  assume ts: "ts \<noteq> []" and eq: "put ts w = w"
  then have "cout (put ts w) = cout w" by simp
  with ts show False by (simp add: put_def)
qed

section \<open>The properties\<close>

text \<open>
  C1. For every handler \<open>H\<close> and every value sequence \<open>V = pre @ [0]\<close> that ends in a single
  trailing 0 (no 0 in \<open>pre\<close>), \<^verbatim>\<open>RunEventLoop\<close> returns, having read exactly \<open>V\<close> (what follows
  \<open>V\<close> in the source is left unread). The state it returns is the one \<open>H\<close> returns from its
  call on the terminating 0, which comes after one turn (prompt, then call of \<open>H\<close>) for each
  value of \<open>pre\<close> from first to last. With the probe \<open>logging\<close> around any handler \<open>L\<close>, the
  log of calls grows by exactly \<open>V\<close>: one call per element, in the order of \<open>V\<close>, the last
  one on the 0.
\<close>

theorem RunEventLoop_dispatches_each:
  assumes "0 \<notin> set pre"
  shows "RunEventLoop H ((pre @ [0]) @- rest) w =
           Some (rest, H 0 (put [Str ''Enter the next integer (0 for exit): '']
                             (foldl (dispatch H) w pre)))
         \<and> map_option (\<lambda>r. (fst r, calls (snd r)))
             (RunEventLoop (logging L) ((pre @ [0]) @- rest) st) =
           Some (rest, calls st @ pre @ [0])"
proof
  have "RunEventLoop H ((pre @ [0]) @- rest) w = Some (rest, foldl (dispatch H) w (pre @ [0]))"
    using assms by (simp add: RunEventLoop_prefix)
  also have "foldl (dispatch H) w (pre @ [0]) =
      H 0 (put [Str ''Enter the next integer (0 for exit): ''] (foldl (dispatch H) w pre))"
    by (simp add: dispatch_def)
  finally show "RunEventLoop H ((pre @ [0]) @- rest) w =
      Some (rest, H 0 (put [Str ''Enter the next integer (0 for exit): '']
                        (foldl (dispatch H) w pre)))" .
next
  have "RunEventLoop (logging L) ((pre @ [0]) @- rest) st =
      Some (rest, foldl (dispatch (logging L)) st (pre @ [0]))"
    using assms by (simp add: RunEventLoop_prefix)
  then show "map_option (\<lambda>r. (fst r, calls (snd r)))
      (RunEventLoop (logging L) ((pre @ [0]) @- rest) st) = Some (rest, calls st @ pre @ [0])"
    by (simp only: option.map fst_conv snd_conv calls_foldl_logging)
qed

theorem RunEventLoop_dispatches_each_witness:
  "RunEventLoop IntHandler2 (61 ## 10 ## 0 ## sconst 7) \<lparr>cout = []\<rparr> =
     Some (sconst 7,
           \<lparr>cout = [Str ''Enter the next integer (0 for exit): '', Str ''New value: '', Num 61, Endl,
                    Str ''Enter the next integer (0 for exit): '', Str ''New value: '', Num 10, Endl,
                    Str ''Enter the next integer (0 for exit): '', Str ''New value: '', Num 0, Endl]\<rparr>)
   \<and> map_option (\<lambda>r. (fst r, calls (snd r)))
        (RunEventLoop (logging IntHandler2) (61 ## 10 ## 0 ## sconst 7) \<lparr>cout = [], calls = []\<rparr>) =
      Some (sconst 7, [61, 10, 0])"
  using RunEventLoop_dispatches_each [where pre = "[61, 10]" and H = IntHandler2
      and rest = "sconst 7" and w = "\<lparr>cout = []\<rparr>" and L = IntHandler2
      and st = "\<lparr>cout = [], calls = []\<rparr>"]
  by (simp add: dispatch_def IntHandler2_def put_def)

lemma HardcodedHandlerDemo_prefix_inline:
  "0 \<notin> set pre \<Longrightarrow>
   HardcodedHandlerDemo (pre @- 0 ## rest) w =
     Some (rest,
       foldl (\<lambda>w v. if v > 50
                     then put [Str ''Alert!'', Endl]
                            (put [Str ''Enter the next integer (0 for exit): ''] w)
                     else put [Str ''Enter the next integer (0 for exit): ''] w)
         w (pre @ [0]))"
  by (induction pre arbitrary: w)
    (simp_all add: HardcodedHandlerDemo_step dispatch_def IntHandler1_def)

text \<open>
  C2. \<^verbatim>\<open>RunEventLoop\<close> and the loop of \<^verbatim>\<open>HardcodedHandlerDemo\<close> return if and only if the
  value source yields a 0; on a source without 0 they never return. When \<open>pre\<close> are the
  values read before the first 0, each loop stops at that 0 with the rest of the source
  unread, after one turn for each value of \<open>pre\<close> in the order read and one for the 0:
  \<^verbatim>\<open>RunEventLoop\<close> calls its handler once in each turn (the log of calls grows by \<open>pre\<close>
  followed by 0), and \<^verbatim>\<open>HardcodedHandlerDemo\<close> runs its built-in comparison with 50 once in
  each turn.
\<close>

theorem RunEventLoop_terminates_iff_zero:
  "(\<exists>r. RunEventLoop H cin w = Some r) = (0 \<in> sset cin)
   \<and> (RunEventLoop H cin w = None) = (0 \<notin> sset cin)
   \<and> (\<exists>r. HardcodedHandlerDemo cin w = Some r) = (0 \<in> sset cin)
   \<and> (HardcodedHandlerDemo cin w = None) = (0 \<notin> sset cin)
   \<and> (\<forall>pre rest. cin = pre @- 0 ## rest \<and> 0 \<notin> set pre \<longrightarrow>
         map_option (\<lambda>r. (fst r, calls (snd r))) (RunEventLoop (logging L) cin st) =
           Some (rest, calls st @ pre @ [0]))
   \<and> (\<forall>pre rest. cin = pre @- 0 ## rest \<and> 0 \<notin> set pre \<longrightarrow>
         RunEventLoop H cin w = Some (rest, foldl (dispatch H) w (pre @ [0])))
   \<and> (\<forall>pre rest. cin = pre @- 0 ## rest \<and> 0 \<notin> set pre \<longrightarrow>
         HardcodedHandlerDemo cin w =
           Some (rest,
             foldl (\<lambda>w v. if v > 50
                           then put [Str ''Alert!'', Endl]
                                  (put [Str ''Enter the next integer (0 for exit): ''] w)
                           else put [Str ''Enter the next integer (0 for exit): ''] w)
               w (pre @ [0])))"
proof (intro conjI allI impI)
  show n: "(RunEventLoop H cin w = None) = (0 \<notin> sset cin)"
    by (rule RunEventLoop_None_iff)
  then show "(\<exists>r. RunEventLoop H cin w = Some r) = (0 \<in> sset cin)"
    by (cases "RunEventLoop H cin w") simp_all
  show h: "(HardcodedHandlerDemo cin w = None) = (0 \<notin> sset cin)"
    by (simp add: HardcodedHandlerDemo_eq RunEventLoop_None_iff)
  then show "(\<exists>r. HardcodedHandlerDemo cin w = Some r) = (0 \<in> sset cin)"
    by (cases "HardcodedHandlerDemo cin w") simp_all
next
  fix pre rest
  assume "cin = pre @- 0 ## rest \<and> 0 \<notin> set pre"
  then have "RunEventLoop (logging L) cin st =
      Some (rest, foldl (dispatch (logging L)) st (pre @ [0]))"
    by (simp add: RunEventLoop_prefix)
  then show "map_option (\<lambda>r. (fst r, calls (snd r))) (RunEventLoop (logging L) cin st) =
      Some (rest, calls st @ pre @ [0])"
    by (simp only: option.map fst_conv snd_conv calls_foldl_logging)
next
  fix pre rest
  assume "cin = pre @- 0 ## rest \<and> 0 \<notin> set pre"
  then show "RunEventLoop H cin w = Some (rest, foldl (dispatch H) w (pre @ [0]))"
    by (simp add: RunEventLoop_prefix)
next
  fix pre rest
  assume "cin = pre @- 0 ## rest \<and> 0 \<notin> set pre"
  then have c: "cin = pre @- 0 ## rest" and z: "0 \<notin> set pre"
    by simp_all
  show "HardcodedHandlerDemo cin w =
      Some (rest,
        foldl (\<lambda>w v. if v > 50
                      then put [Str ''Alert!'', Endl]
                             (put [Str ''Enter the next integer (0 for exit): ''] w)
                      else put [Str ''Enter the next integer (0 for exit): ''] w)
          w (pre @ [0]))"
    unfolding c by (rule HardcodedHandlerDemo_prefix_inline [OF z])
qed

theorem RunEventLoop_terminates_iff_zero_witness:
  "RunEventLoop IntHandler1 (sconst 1) \<lparr>cout = []\<rparr> = None
   \<and> HardcodedHandlerDemo (sconst 1) \<lparr>cout = []\<rparr> = None
   \<and> (\<exists>r. RunEventLoop IntHandler1 (61 ## 0 ## sconst 1) \<lparr>cout = []\<rparr> = Some r)
   \<and> (\<exists>r. HardcodedHandlerDemo (61 ## 0 ## sconst 1) \<lparr>cout = []\<rparr> = Some r)
   \<and> map_option (\<lambda>r. (fst r, calls (snd r)))
        (RunEventLoop (logging IntHandler1) (61 ## 0 ## sconst 1) \<lparr>cout = [], calls = []\<rparr>) =
      Some (sconst 1, [61, 0])
   \<and> RunEventLoop IntHandler2 (61 ## 0 ## sconst 1) \<lparr>cout = []\<rparr> =
      Some (sconst 1,
        \<lparr>cout = [Str ''Enter the next integer (0 for exit): '', Str ''New value: '', Num 61, Endl,
                 Str ''Enter the next integer (0 for exit): '', Str ''New value: '', Num 0,
                 Endl]\<rparr>)
   \<and> HardcodedHandlerDemo (61 ## 0 ## sconst 1) \<lparr>cout = []\<rparr> =
      Some (sconst 1,
        \<lparr>cout = [Str ''Enter the next integer (0 for exit): '', Str ''Alert!'', Endl,
                 Str ''Enter the next integer (0 for exit): '']\<rparr>)"
proof -
  have split: "61 ## 0 ## sconst 1 = [61] @- 0 ## sconst (1::int) \<and> 0 \<notin> set [61::int]"
    by simp
  note a = RunEventLoop_terminates_iff_zero [where H = IntHandler1 and cin = "sconst 1"
      and w = "\<lparr>cout = []\<rparr>" and L = IntHandler1 and st = "\<lparr>cout = [], calls = []\<rparr>"]
  note b = RunEventLoop_terminates_iff_zero [where H = IntHandler1 and cin = "61 ## 0 ## sconst 1"
      and w = "\<lparr>cout = []\<rparr>" and L = IntHandler1 and st = "\<lparr>cout = [], calls = []\<rparr>"]
  note b' = RunEventLoop_terminates_iff_zero [where H = IntHandler2 and cin = "61 ## 0 ## sconst 1"
      and w = "\<lparr>cout = []\<rparr>" and L = IntHandler1 and st = "\<lparr>cout = [], calls = []\<rparr>"]
  have a1: "RunEventLoop IntHandler1 (sconst 1) \<lparr>cout = []\<rparr> = None"
    using a [THEN conjunct2, THEN conjunct1] by simp
  have a2: "HardcodedHandlerDemo (sconst 1) \<lparr>cout = []\<rparr> = None"
    using a [THEN conjunct2, THEN conjunct2, THEN conjunct2, THEN conjunct1] by simp
  have b1: "\<exists>r. RunEventLoop IntHandler1 (61 ## 0 ## sconst 1) \<lparr>cout = []\<rparr> = Some r"
    using b [THEN conjunct1] by simp
  have b2: "\<exists>r. HardcodedHandlerDemo (61 ## 0 ## sconst 1) \<lparr>cout = []\<rparr> = Some r"
    using b [THEN conjunct2, THEN conjunct2, THEN conjunct1] by simp
  have c: "map_option (\<lambda>r. (fst r, calls (snd r)))
        (RunEventLoop (logging IntHandler1) (61 ## 0 ## sconst 1) \<lparr>cout = [], calls = []\<rparr>) =
      Some (sconst 1, [61, 0])"
    using b [THEN conjunct2, THEN conjunct2, THEN conjunct2, THEN conjunct2, THEN conjunct1,
        rule_format, OF split]
    by simp
  have d: "RunEventLoop IntHandler2 (61 ## 0 ## sconst 1) \<lparr>cout = []\<rparr> =
      Some (sconst 1,
        \<lparr>cout = [Str ''Enter the next integer (0 for exit): '', Str ''New value: '', Num 61, Endl,
                 Str ''Enter the next integer (0 for exit): '', Str ''New value: '', Num 0,
                 Endl]\<rparr>)"
    using b' [THEN conjunct2, THEN conjunct2, THEN conjunct2, THEN conjunct2, THEN conjunct2,
        THEN conjunct1, rule_format, OF split]
    by (simp add: dispatch_def IntHandler2_def put_def)
  have e: "HardcodedHandlerDemo (61 ## 0 ## sconst 1) \<lparr>cout = []\<rparr> =
      Some (sconst 1,
        \<lparr>cout = [Str ''Enter the next integer (0 for exit): '', Str ''Alert!'', Endl,
                 Str ''Enter the next integer (0 for exit): '']\<rparr>)"
    using b [THEN conjunct2, THEN conjunct2, THEN conjunct2, THEN conjunct2, THEN conjunct2,
        THEN conjunct2, rule_format, OF split]
    by (simp add: put_def)
  from a1 a2 b1 b2 c d e show ?thesis by (intro conjI)
qed

text \<open>
  C3. A handler with threshold 50 (\<^verbatim>\<open>IntHandler1\<close>, or a \<^verbatim>\<open>NewValueHandler\<close> constructed with
  50) driven over the values 61, 0 writes \<^verbatim>\<open>Alert!\<close> once, after the prompt for 61, and
  nothing after the prompt for 0; driven over 10, 0 it writes nothing but the two prompts
  of the loop.
\<close>

theorem threshold_50_examples:
  "RunEventLoop IntHandler1 (61 ## 0 ## rest) w =
     Some (rest, put [Str ''Enter the next integer (0 for exit): '', Str ''Alert!'', Endl,
                      Str ''Enter the next integer (0 for exit): ''] w)
   \<and> FunctorDemo_loop (NewValueHandler_ctor 50) (61 ## 0 ## rest) w =
     Some (NewValueHandler_ctor 50, rest,
           put [Str ''Enter the next integer (0 for exit): '', Str ''Alert!'', Endl,
                Str ''Enter the next integer (0 for exit): ''] w)
   \<and> RunEventLoop IntHandler1 (10 ## 0 ## rest) w =
     Some (rest, put [Str ''Enter the next integer (0 for exit): '',
                      Str ''Enter the next integer (0 for exit): ''] w)
   \<and> FunctorDemo_loop (NewValueHandler_ctor 50) (10 ## 0 ## rest) w =
     Some (NewValueHandler_ctor 50, rest,
           put [Str ''Enter the next integer (0 for exit): '',
                Str ''Enter the next integer (0 for exit): ''] w)
   \<and> IntHandler1 61 w = put [Str ''Alert!'', Endl] w
   \<and> IntHandler1 10 w = w
   \<and> IntHandler1 0 w = w
   \<and> snd (NewValueHandler_call (NewValueHandler_ctor 50) 61 w) = put [Str ''Alert!'', Endl] w
   \<and> snd (NewValueHandler_call (NewValueHandler_ctor 50) 10 w) = w
   \<and> snd (NewValueHandler_call (NewValueHandler_ctor 50) 0 w) = w"
  by (simp add: RunEventLoop_step FunctorDemo_loop_step dispatch_def IntHandler1_def
      NewValueHandler_call_def NewValueHandler_ctor_def put_def)

text \<open>
  C5. For the same value source and console, \<^verbatim>\<open>HardcodedHandlerDemo\<close>, \<^verbatim>\<open>FunctorDemo\<close> (a
  \<^verbatim>\<open>NewValueHandler\<close> with threshold 50) and \<^verbatim>\<open>RunEventLoop\<close> applied to \<^verbatim>\<open>IntHandler1\<close> behave
  alike: all three run for ever, or all three return with the same output and the same rest
  of the source. On each value the function object does what \<^verbatim>\<open>IntHandler1\<close> does.
\<close>

theorem variants_agree:
  "HardcodedHandlerDemo cin w = RunEventLoop IntHandler1 cin w
   \<and> FunctorDemo cin w = RunEventLoop IntHandler1 cin w
   \<and> snd (NewValueHandler_call (NewValueHandler_ctor 50) v w) = IntHandler1 v w"
  by (simp add: HardcodedHandlerDemo_eq FunctorDemo_eq call_ctor_50)

text \<open>
  C9. The comparison of the alert is strict. \<^verbatim>\<open>IntHandler1\<close> writes the alert if and only if
  its argument is greater than 50, and a \<^verbatim>\<open>NewValueHandler\<close> constructed with threshold \<open>T\<close>
  if and only if its argument is greater than \<open>T\<close>; a value equal to the threshold leaves
  the console as it was.
\<close>

theorem alert_is_strict:
  "IntHandler1 n w = (if 50 < n then put [Str ''Alert!'', Endl] w else w)
   \<and> (IntHandler1 n w \<noteq> w) = (50 < n)
   \<and> IntHandler1 50 w = w
   \<and> snd (NewValueHandler_call (NewValueHandler_ctor T) v w) =
       (if T < v then put [Str ''Alert!'', Endl] w else w)
   \<and> (snd (NewValueHandler_call (NewValueHandler_ctor T) v w) \<noteq> w) = (T < v)
   \<and> snd (NewValueHandler_call (NewValueHandler_ctor T) T w) = w"
  by (simp add: IntHandler1_def NewValueHandler_call_def NewValueHandler_ctor_def put_neq)

lemma NewValueHandler_call_this: "fst (NewValueHandler_call this v w) = this"
  by (simp add: NewValueHandler_call_def)

lemma NewValueHandler_calls_this: "fst (NewValueHandler_calls this vs w) = this"
  by (induction vs arbitrary: w) (simp_all add: NewValueHandler_call_def)

lemma FunctorDemo_loop_this:
  "map_option fst (FunctorDemo_loop this cin w) = (if 0 \<in> sset cin then Some this else None)"
proof (cases "0 \<in> sset cin")
  case True
  then obtain pre rest where "cin = pre @- 0 ## rest" "0 \<notin> set pre"
    using split_first_zero by blast
  then show ?thesis by (simp add: FunctorDemo_loop_prefix zero_in_shift)
next
  case False
  then have "FunctorDemo_loop this cin w = None"
    by (cases "FunctorDemo_loop this cin w") (auto dest: FunctorDemo_loop_Some_zero)
  with False show ?thesis by simp
qed

text \<open>
  C7. The threshold of a \<^verbatim>\<open>NewValueHandler\<close> does not change after construction. The
  constructor stores its argument; a call hands the object back as it was, and so does
  every sequence of calls and the loop of \<^verbatim>\<open>FunctorDemo\<close> whenever it returns. Hence each
  call, after whatever calls came before, compares its argument with the threshold \<open>T\<close>
  given to the constructor.
\<close>

theorem threshold_is_immutable:
  "alert_threshold (NewValueHandler_ctor T) = T
   \<and> fst (NewValueHandler_call this v w) = this
   \<and> fst (NewValueHandler_calls this vs w) = this
   \<and> alert_threshold (fst (NewValueHandler_calls (NewValueHandler_ctor T) vs w)) = T
   \<and> snd (NewValueHandler_call (fst (NewValueHandler_calls (NewValueHandler_ctor T) vs w)) v w') =
       (if v > T then put [Str ''Alert!'', Endl] w' else w')
   \<and> map_option fst (FunctorDemo_loop this cin w) = (if 0 \<in> sset cin then Some this else None)"
  by (simp add: NewValueHandler_calls_this NewValueHandler_call_this FunctorDemo_loop_this)
    (simp add: NewValueHandler_ctor_def NewValueHandler_call_def)

section \<open>Sorting\<close>

lemma mset_insert_by: "mset (insert_by cmp x xs) = add_mset x (mset xs)"
  by (induction xs) simp_all

lemma mset_std_sort: "mset (std_sort cmp xs) = mset xs"
  unfolding std_sort_def by (induction xs) (simp_all add: mset_insert_by)

lemma set_insert_by: "set (insert_by cmp x xs) = insert x (set xs)"
  by (induction xs) auto

lemma sorted_wrt_insert_by:
  assumes asym: "\<And>a b. cmp a b \<Longrightarrow> \<not> cmp b a"
    and trans: "\<And>a b c. \<not> cmp b a \<Longrightarrow> \<not> cmp c b \<Longrightarrow> \<not> cmp c a"
  shows "sorted_wrt (\<lambda>a b. \<not> cmp b a) xs \<Longrightarrow>
         sorted_wrt (\<lambda>a b. \<not> cmp b a) (insert_by cmp x xs)"
proof (induction xs)
  case Nil
  show ?case by simp
next
  case (Cons y ys)
  show ?case
  proof (cases "cmp x y")
    case True
    have "\<not> cmp y x" using True by (rule asym)
    moreover have "\<forall>z\<in>set ys. \<not> cmp z x"
      using Cons.prems \<open>\<not> cmp y x\<close> trans by auto
    ultimately show ?thesis using True Cons.prems by simp
  next
    case False
    then show ?thesis using Cons by (auto simp: set_insert_by)
  qed
qed

lemma sorted_wrt_std_sort:
  assumes asym: "\<And>a b. cmp a b \<Longrightarrow> \<not> cmp b a"
    and trans: "\<And>a b c. \<not> cmp b a \<Longrightarrow> \<not> cmp c b \<Longrightarrow> \<not> cmp c a"
  shows "sorted_wrt (\<lambda>a b. \<not> cmp b a) (std_sort cmp xs)"
  unfolding std_sort_def
  by (induction xs) (simp_all add: sorted_wrt_insert_by [OF asym trans])

lemma sorted_std_sort_less: "sorted (std_sort (<) (xs :: int list))"
proof -
  have "sorted_wrt (\<lambda>a b. \<not> b < a) (std_sort (<) xs)"
    by (rule sorted_wrt_std_sort) auto
  then show ?thesis by (simp add: not_less)
qed

lemma sorted_std_sort_Comparer: "sorted_wrt (\<ge>) (std_sort Comparer xs)"
proof -
  have "sorted_wrt (\<lambda>a b. \<not> Comparer b a) (std_sort Comparer xs)"
    by (rule sorted_wrt_std_sort) (auto simp: Comparer_def)
  then show ?thesis by (simp add: Comparer_def not_less)
qed

lemma Comparer_lambda: "Comparer = (\<lambda>a b. a > b)"
  by (rule ext, rule ext) (simp add: Comparer_def)

lemma std_sort_unique:
  "mset ys = mset (xs :: int list) \<Longrightarrow> sorted ys \<Longrightarrow> ys = std_sort (<) xs"
proof -
  assume ys: "mset ys = mset xs" "sorted ys"
  then have "sort xs = ys" by (rule properties_for_sort)
  moreover have "sort xs = std_sort (<) xs"
    by (rule properties_for_sort) (simp_all add: mset_std_sort sorted_std_sort_less)
  ultimately show ?thesis by simp
qed

lemma std_sort_Comparer_unique:
  assumes "mset ys = mset xs" "sorted_wrt (\<ge>) ys"
  shows "ys = std_sort Comparer xs"
proof -
  have "sorted (rev ys)" using assms(2) by (simp add: sorted_wrt_rev)
  then have 1: "sort xs = rev ys" using assms(1) by (intro properties_for_sort) simp_all
  have "sorted (rev (std_sort Comparer xs))"
    using sorted_std_sort_Comparer by (simp add: sorted_wrt_rev)
  then have "sort xs = rev (std_sort Comparer xs)"
    by (intro properties_for_sort) (simp_all add: mset_std_sort)
  with 1 show ?thesis by simp
qed

lemma sort_increasing_example: "std_sort (<) [3, 2, 6, 9, 1, 5 :: int] = [1, 2, 3, 5, 6, 9]"
  by (simp add: std_sort_def)

lemma sort_decreasing_example: "std_sort Comparer [1, 2, 3, 5, 6, 9] = [9, 6, 5, 3, 2, 1]"
  by (simp add: std_sort_def Comparer_def)

lemma PredicateDemo_passes: "PredicateDemo = Inr ()"
  by (simp add: PredicateDemo_def sort_increasing_example sort_decreasing_example)

lemma LambdaAsPredicateDemo_passes: "LambdaAsPredicateDemo = Inr ()"
  by (simp add: LambdaAsPredicateDemo_def sort_increasing_example sort_decreasing_example
      Comparer_lambda [symmetric])

text \<open>
  C4. For every vector of integers, sorting with the natural order gives a non-decreasing
  vector, and sorting that again with the greater-than predicate (\<^verbatim>\<open>Comparer\<close>, or the lambda
  of \<^verbatim>\<open>LambdaAsPredicateDemo\<close>) gives a non-increasing vector with the elements of the
  original, each as often as there. On 3, 2, 6, 9, 1, 5 the first sort gives 1, 2, 3, 5, 6, 9
  and the second 9, 6, 5, 3, 2, 1, so that no assertion of \<^verbatim>\<open>PredicateDemo\<close> and
  \<^verbatim>\<open>LambdaAsPredicateDemo\<close> fails.
\<close>

theorem sorting_with_predicates:
  "sorted (std_sort (<) (xs :: int list))
   \<and> sorted_wrt (\<ge>) (std_sort Comparer (std_sort (<) xs))
   \<and> mset (std_sort (<) xs) = mset xs
   \<and> mset (std_sort Comparer (std_sort (<) xs)) = mset xs
   \<and> std_sort (\<lambda>a b. a > b) (std_sort (<) xs) = std_sort Comparer (std_sort (<) xs)
   \<and> std_sort (<) [3, 2, 6, 9, 1, 5 :: int] = [1, 2, 3, 5, 6, 9]
   \<and> std_sort Comparer [1, 2, 3, 5, 6, 9] = [9, 6, 5, 3, 2, 1]
   \<and> PredicateDemo = Inr ()
   \<and> LambdaAsPredicateDemo = Inr ()"
  by (simp add: sorted_std_sort_less sorted_std_sort_Comparer mset_std_sort
      Comparer_lambda [symmetric] sort_increasing_example sort_decreasing_example
      PredicateDemo_passes LambdaAsPredicateDemo_passes)

section \<open>Captures\<close>

lemmas LambdaDemo_defs =
  LambdaDemo_upto_def LambdaDemo_body_def enter_def leave_def declare_int_def declare_string_def
  by_value_def lambda_new_value_def lambda_hello_def lambda_empty_def lambda_string_def
  lambda_threshold_def lambda_all_by_value_def lambda_ref_i_def lambda_ref_all_def put_def

text \<open>
  C6. What a lambda assigns to a variable captured by reference is what the caller finds
  in that variable afterwards. In \<^verbatim>\<open>LambdaDemo\<close>, \<open>i\<close> is 1 after the lambda capturing \<open>i\<close> by
  reference; \<open>i\<close> and \<open>j\<close> are 1 and 2 before the lambda capturing everything by reference,
  and 11 and 22 after it and until the function ends.
\<close>

theorem reference_captures_reach_the_caller:
  "ints (LambdaDemo_upto 9 w) ''i'' = Some 1
   \<and> ints (LambdaDemo_upto 10 w) ''i'' = Some 1
   \<and> ints (LambdaDemo_upto 11 w) ''i'' = Some 1
   \<and> ints (LambdaDemo_upto 11 w) ''j'' = Some 2
   \<and> ints (LambdaDemo_upto 12 w) ''i'' = Some 11
   \<and> ints (LambdaDemo_upto 12 w) ''j'' = Some 22
   \<and> ints (LambdaDemo_upto (length LambdaDemo_body) w) ''i'' = Some 11
   \<and> ints (LambdaDemo_upto (length LambdaDemo_body) w) ''j'' = Some 22
   \<and> ints (lambda_ref_i ''i'' st) ''i'' = Some 1
   \<and> ints (lambda_ref_all ''i'' ''j'' st) ''i'' = Some 11
   \<and> ints (lambda_ref_all ''i'' ''j'' st) ''j'' = Some 22"
  by (simp add: LambdaDemo_defs)

text \<open>
  C10. The lambdas capturing by value change no local variable of the caller, whatever the
  frame they are called in. In \<^verbatim>\<open>LambdaDemo\<close>, \<open>threshold\<close> is 50 and \<open>i\<close> is 1 after them. The
  values of \<open>threshold\<close>, \<open>i\<close> and \<open>j\<close> after each of the 14 statements show that \<open>threshold\<close>
  keeps its value, and that past their declarations \<open>i\<close> and \<open>j\<close> are assigned by the two
  lambdas capturing by reference only (statements 10 and 12).
\<close>

theorem value_captures_leave_the_caller:
  "ints (by_value ''threshold'' lambda_threshold st) = ints st
   \<and> ints (by_value ''threshold'' (\<lambda>threshold. by_value ''i'' (lambda_all_by_value threshold)) st)
       = ints st
   \<and> ints (LambdaDemo_upto 6 w) = [''threshold'' \<mapsto> 50]
   \<and> ints (LambdaDemo_upto 7 w) = [''threshold'' \<mapsto> 50]
   \<and> ints (LambdaDemo_upto 8 w) = [''threshold'' \<mapsto> 50, ''i'' \<mapsto> 1]
   \<and> ints (LambdaDemo_upto 9 w) = [''threshold'' \<mapsto> 50, ''i'' \<mapsto> 1]
   \<and> map (\<lambda>k. (ints (LambdaDemo_upto k w) ''threshold'', ints (LambdaDemo_upto k w) ''i'',
                 ints (LambdaDemo_upto k w) ''j''))
         [0, 1, 2, 3, 4, 5, 6, 7, 8, 9, 10, 11, 12, 13, 14] =
       [(None, None, None), (None, None, None), (None, None, None), (None, None, None),
        (None, None, None), (None, None, None),
        (Some 50, None, None), (Some 50, None, None),
        (Some 50, Some 1, None), (Some 50, Some 1, None), (Some 50, Some 1, None),
        (Some 50, Some 1, Some 2),
        (Some 50, Some 11, Some 22), (Some 50, Some 11, Some 22), (Some 50, Some 11, Some 22)]"
  apply (intro conjI)
  apply (simp add: by_value_def lambda_threshold_def put_def split: option.splits)
  apply (simp add: by_value_def lambda_all_by_value_def put_def split: option.splits)
  apply (simp_all add: LambdaDemo_defs)
  done

section \<open>The entry point runs the demonstrations in turn\<close>

lemma HandlerSetInRuntimeDemo_loop_step:
  "HandlerSetInRuntimeDemo_loop H (v ## s) w =
     (if v \<noteq> 0 then HandlerSetInRuntimeDemo_loop H s (dispatch H w v)
      else Some (s, dispatch H w v))"
  by (subst HandlerSetInRuntimeDemo_loop.simps) (simp add: FetchValue_def dispatch_def)

lemma HandlerSetInRuntimeDemo_loop_prefix:
  "0 \<notin> set pre \<Longrightarrow>
   HandlerSetInRuntimeDemo_loop H (pre @- 0 ## rest) w =
     Some (rest, foldl (dispatch H) w (pre @ [0]))"
  by (induction pre arbitrary: w) (simp_all add: HandlerSetInRuntimeDemo_loop_step)

lemma main_run:
  "main (\<lambda>t. int t) 1 2 (0 ## 0 ## 0 ## 0 ## 0 ## sconst 7) \<lparr>cout = []\<rparr> =
     Some (Inr (0, sconst 7,
       \<lparr>cout = [Str ''Enter the next integer (0 for exit): '',
                Str ''Enter the next integer (0 for exit): '',
                Str ''Enter the next integer (0 for exit): '',
                Str ''Enter the next integer (0 for exit): '',
                Str ''New value: '', Num 0, Endl,
                Str ''Enter the next integer (0 for exit): '',
                Str ''New value: '', Num 0, Endl,
                Str ''New value: '', Num 123, Endl,
                Str ''Hello from lambda!'', Endl,
                Num 50, Endl,
                Num 50, Str '', '', Num 1, Endl,
                Str ''Hello from lambda!'', Endl]\<rparr>))"
  by (simp add: main_def HardcodedHandlerDemo_step HandlerSetInRuntimeDemo_def
      HandlerSetInRuntimeDemo_loop_step FunctorDemo_def FunctorDemo_loop_step
      EventHandlerPassedAsAnArgumentDemo_def EventHandlerIsLambdaDemo_def RunEventLoop_step
      PredicateDemo_passes LambdaAsPredicateDemo_passes GenerateRandomNumber_def
      signed_modulo_int_def dispatch_def IntHandler1_def IntHandler2_def NewValueHandler_call_def NewValueHandler_ctor_def
      LambdaDemo_def LambdaDemo_defs)

lemma main_completes:
  assumes "0 \<notin> set p1" "0 \<notin> set p2" "0 \<notin> set p3" "0 \<notin> set p4" "0 \<notin> set p5"
  shows "\<exists>w'. main rand_after now1 now2
           (p1 @- 0 ## p2 @- 0 ## p3 @- 0 ## p4 @- 0 ## p5 @- 0 ## rest) w =
         Some (Inr (0, rest, w'))"
  using assms
  by (simp add: main_def HardcodedHandlerDemo_prefix HandlerSetInRuntimeDemo_def
      HandlerSetInRuntimeDemo_loop_prefix FunctorDemo_def FunctorDemo_loop_prefix
      EventHandlerPassedAsAnArgumentDemo_def EventHandlerIsLambdaDemo_def RunEventLoop_prefix
      PredicateDemo_passes LambdaAsPredicateDemo_passes Let_def)

text \<open>
  C8. When \<^verbatim>\<open>main\<close> completes, every demonstration has run to its end, in the order of the
  source, each from the value source and the console the one before left; no assertion has
  failed; and the exit code is 0. It does complete, with exit code 0 and the rest of the
  source unread, whenever the source supplies five blocks of values that each end in their
  first 0, one block for each of the five event loops. (\<^verbatim>\<open>main\<close> takes no arguments. The
  value source, the console and the clock are all the program reads or writes.)
\<close>

theorem main_exits_with_0:
  "(main rand_after now1 now2 cin w = Some r \<longrightarrow>
      (\<exists>cin1 w1 cin2 w2 cin3 w3 cin4 w4 cin5 w5.
           HardcodedHandlerDemo cin w = Some (cin1, w1)
         \<and> HandlerSetInRuntimeDemo rand_after now1 cin1 w1 = Some (cin2, w2)
         \<and> FunctorDemo cin2 w2 = Some (cin3, w3)
         \<and> EventHandlerPassedAsAnArgumentDemo rand_after now2 cin3 w3 = Some (cin4, w4)
         \<and> EventHandlerIsLambdaDemo cin4 w4 = Some (cin5, w5)
         \<and> PredicateDemo = Inr ()
         \<and> LambdaAsPredicateDemo = Inr ()
         \<and> r = Inr (0, cin5, LambdaDemo w5)))
   \<and> (0 \<notin> set p1 \<and> 0 \<notin> set p2 \<and> 0 \<notin> set p3 \<and> 0 \<notin> set p4 \<and> 0 \<notin> set p5 \<longrightarrow>
      (\<exists>w'. main rand_after now1 now2
           (p1 @- 0 ## p2 @- 0 ## p3 @- 0 ## p4 @- 0 ## p5 @- 0 ## rest) w0 =
         Some (Inr (0, rest, w'))))"
proof (intro conjI impI)
  assume "main rand_after now1 now2 cin w = Some r"
  then show "\<exists>cin1 w1 cin2 w2 cin3 w3 cin4 w4 cin5 w5.
           HardcodedHandlerDemo cin w = Some (cin1, w1)
         \<and> HandlerSetInRuntimeDemo rand_after now1 cin1 w1 = Some (cin2, w2)
         \<and> FunctorDemo cin2 w2 = Some (cin3, w3)
         \<and> EventHandlerPassedAsAnArgumentDemo rand_after now2 cin3 w3 = Some (cin4, w4)
         \<and> EventHandlerIsLambdaDemo cin4 w4 = Some (cin5, w5)
         \<and> PredicateDemo = Inr ()
         \<and> LambdaAsPredicateDemo = Inr ()
         \<and> r = Inr (0, cin5, LambdaDemo w5)"
    by (auto simp: main_def PredicateDemo_passes LambdaAsPredicateDemo_passes
        split: Option.bind_splits)
next
  assume "0 \<notin> set p1 \<and> 0 \<notin> set p2 \<and> 0 \<notin> set p3 \<and> 0 \<notin> set p4 \<and> 0 \<notin> set p5"
  then show "\<exists>w'. main rand_after now1 now2
           (p1 @- 0 ## p2 @- 0 ## p3 @- 0 ## p4 @- 0 ## p5 @- 0 ## rest) w0 =
         Some (Inr (0, rest, w'))"
    by (simp add: main_completes)
qed

theorem main_exits_with_0_witness:
  "main (\<lambda>t. int t) 1 2 (0 ## 0 ## 0 ## 0 ## 0 ## sconst 7) \<lparr>cout = []\<rparr> =
     Some (Inr (0, sconst 7,
       \<lparr>cout = [Str ''Enter the next integer (0 for exit): '',
                Str ''Enter the next integer (0 for exit): '',
                Str ''Enter the next integer (0 for exit): '',
                Str ''Enter the next integer (0 for exit): '',
                Str ''New value: '', Num 0, Endl,
                Str ''Enter the next integer (0 for exit): '',
                Str ''New value: '', Num 0, Endl,
                Str ''New value: '', Num 123, Endl,
                Str ''Hello from lambda!'', Endl,
                Num 50, Endl,
                Num 50, Str '', '', Num 1, Endl,
                Str ''Hello from lambda!'', Endl]\<rparr>))
   \<and> (\<exists>cin1 w1. HardcodedHandlerDemo (0 ## 0 ## 0 ## 0 ## 0 ## sconst 7) \<lparr>cout = []\<rparr> =
          Some (cin1, w1))
   \<and> PredicateDemo = Inr ()
   \<and> LambdaAsPredicateDemo = Inr ()
   \<and> (\<exists>w'. main (\<lambda>t. int t) 1 2 (61 ## 0 ## 10 ## 0 ## 0 ## 7 ## 0 ## 0 ## sconst 7) \<lparr>cout = []\<rparr> =
          Some (Inr (0, sconst 7, w')))"
proof -
  note t = main_exits_with_0 [where rand_after = "\<lambda>t. int t" and ?now1.0 = 1 and ?now2.0 = 2
      and cin = "0 ## 0 ## 0 ## 0 ## 0 ## sconst 7" and w = "\<lparr>cout = []\<rparr>"
      and ?p1.0 = "[61]" and ?p2.0 = "[10]" and ?p3.0 = "[]" and ?p4.0 = "[7]" and ?p5.0 = "[]"
      and rest = "sconst 7" and ?w0.0 = "\<lparr>cout = []\<rparr>"]
  have "0 \<notin> set [61::int] \<and> 0 \<notin> set [10::int] \<and> 0 \<notin> set ([]::int list) \<and> 0 \<notin> set [7::int]
      \<and> 0 \<notin> set ([]::int list)"
    by simp
  from t [THEN conjunct2, rule_format, OF this]
  have b: "\<exists>w'. main (\<lambda>t. int t) 1 2 (61 ## 0 ## 10 ## 0 ## 0 ## 7 ## 0 ## 0 ## sconst 7) \<lparr>cout = []\<rparr> =
          Some (Inr (0, sconst 7, w'))"
    by simp
  from main_run t [THEN conjunct1, rule_format, OF main_run] b show ?thesis by blast
qed

end
